theory Spec2Isabelle
  imports Main "HOL-Library.Sublist"
begin

section \<open>Startup configuration (constants.ts)\<close>

text \<open>
  Strings are byte strings (\<open>char list\<close>); a JavaScript string is taken in its UTF-8
  encoding. The character \<open>/\<close> is a single byte there, so nothing below depends on
  the encoding.
\<close>

text \<open>
  What \<open>new URL(url)\<close> exposes to \<open>validateMarketoUrl\<close>: the protocol and the
  hostname. The constructor belongs to the JavaScript runtime, not to this repository, so
  it is a parameter \<open>URL\<close> of the model: \<open>None\<close> stands for the thrown
  \<open>TypeError\<close>.
\<close>

record parsed_url =
  protocol :: string
  hostname :: string

type_synonym url_constructor = "string \<Rightarrow> parsed_url option"

datatype startup_error =
    BaseUrlRequired
  | BaseUrlNotValid string
  | BaseUrlNotHttps
  | CredentialsRequired

text \<open>
  \<open>url.replace(/\/+$/, '')\<close>. The regular expression has no flags, so \<open>$\<close> is the
  end of the input and only the first match is replaced. \<open>slashes_to_end s\<close> says that
  \<open>\/+$\<close> matches at the start of \<open>s\<close>: one or more slashes, then the end.
  \<open>replace_trailing_slashes\<close> tries the start positions from left to right, as the
  regular expression search does, and deletes the first match.
\<close>

fun slashes_to_end :: "string \<Rightarrow> bool" where
  "slashes_to_end [] = False"
| "slashes_to_end (c # cs) = (c = CHR ''/'' \<and> (cs = [] \<or> slashes_to_end cs))"

fun replace_trailing_slashes :: "string \<Rightarrow> string" where
  "replace_trailing_slashes [] = []"
| "replace_trailing_slashes (c # cs) =
     (if slashes_to_end (c # cs) then [] else c # replace_trailing_slashes cs)"

text \<open>The wording "the input with all trailing \<open>/\<close> characters removed".\<close>

definition without_trailing_slashes :: "string \<Rightarrow> string" where
  "without_trailing_slashes s = rev (dropWhile (\<lambda>c. c = CHR ''/'') (rev s))"

definition domain_warning :: string where
  "domain_warning =
     ''Warning: MARKETO_BASE_URL does not appear to be a standard Marketo domain. '' @
     ''Ensure this is intentional.''"

text \<open>
  \<open>validateMarketoUrl\<close>: the three throws in the source's order, then the
  \<open>console.warn\<close> (returned as the list of warnings), then the base URL.
\<close>

definition validateMarketoUrl ::
  "url_constructor \<Rightarrow> string \<Rightarrow> startup_error + (string list \<times> string)" where
  "validateMarketoUrl URL url =
     (if url = [] then Inl BaseUrlRequired
      else case URL url of
        None \<Rightarrow> Inl (BaseUrlNotValid url)
      | Some parsedUrl \<Rightarrow>
          if protocol parsedUrl \<noteq> ''https:'' then Inl BaseUrlNotHttps
          else Inr
            (if \<not> sublist ''mktorest.com'' (hostname parsedUrl) \<and>
                \<not> sublist ''marketo.com'' (hostname parsedUrl)
             then [domain_warning] else [],
             replace_trailing_slashes url))"

text \<open>
  The process environment: each variable is set or not. \<open>process.env.X || ''\<close> reads an
  unset variable as the empty string.
\<close>

record environment =
  env_MARKETO_BASE_URL :: "string option"
  env_MARKETO_CLIENT_ID :: "string option"
  env_MARKETO_CLIENT_SECRET :: "string option"

definition or_empty :: "string option \<Rightarrow> string" where
  "or_empty v = (case v of None \<Rightarrow> [] | Some s \<Rightarrow> s)"

record core_config =
  MARKETO_BASE_URL :: string
  MARKETO_CLIENT_ID :: string
  MARKETO_CLIENT_SECRET :: string

definition API_REQUEST_TIMEOUT :: nat where
  "API_REQUEST_TIMEOUT = 30000"

text \<open>
  Module initialisation up to the construction of the token manager: constants.ts is
  evaluated by the import (it calls \<open>validateMarketoUrl\<close> on the raw base URL), then
  index.ts checks the two credentials (lines 55 to 57) and hands them to
  \<open>new TokenManager\<close>. An \<open>Inl\<close> is the uncaught exception that ends the process.
\<close>

definition construct_core :: "url_constructor \<Rightarrow> environment \<Rightarrow> startup_error + core_config" where
  "construct_core URL env =
     (case validateMarketoUrl URL (or_empty (env_MARKETO_BASE_URL env)) of
        Inl e \<Rightarrow> Inl e
      | Inr (warnings, base) \<Rightarrow>
          if or_empty (env_MARKETO_CLIENT_ID env) = [] \<or>
             or_empty (env_MARKETO_CLIENT_SECRET env) = []
          then Inl CredentialsRequired
          else Inr \<lparr>MARKETO_BASE_URL = base,
                    MARKETO_CLIENT_ID = or_empty (env_MARKETO_CLIENT_ID env),
                    MARKETO_CLIENT_SECRET = or_empty (env_MARKETO_CLIENT_SECRET env)\<rparr>)"

text \<open>
  A small stand-in for the URL constructor, used only to run the model on concrete
  inputs: the scheme is what precedes \<open>://\<close>, the host what follows up to the next
  \<open>/\<close>; a string without \<open>://\<close> or with an empty host does not parse.
\<close>

fun split_scheme :: "string \<Rightarrow> string \<Rightarrow> (string \<times> string) option" where
  "split_scheme acc [] = None"
| "split_scheme acc (c # cs) =
     (if c = CHR '':'' then
        (case cs of
           a # b # rest \<Rightarrow>
             if a = CHR ''/'' \<and> b = CHR ''/'' then Some (rev acc @ '':'', rest) else None
         | _ \<Rightarrow> None)
      else split_scheme (c # acc) cs)"

definition sample_URL :: url_constructor where
  "sample_URL s =
     (case split_scheme [] s of
        None \<Rightarrow> None
      | Some (scheme, rest) \<Rightarrow>
          (let host = takeWhile (\<lambda>c. c \<noteq> CHR ''/'') rest
           in if host = [] then None else Some \<lparr>protocol = scheme, hostname = host\<rparr>))"

text \<open>
  The misconfigurations named by the specification: the base URL is absent (unset or
  empty), not parseable, or not HTTPS, or one of the two credentials is empty.
\<close>

definition misconfigured :: "url_constructor \<Rightarrow> environment \<Rightarrow> bool" where
  "misconfigured URL env =
     (or_empty (env_MARKETO_BASE_URL env) = [] \<or>
      (case URL (or_empty (env_MARKETO_BASE_URL env)) of
         None \<Rightarrow> True
       | Some parsedUrl \<Rightarrow> protocol parsedUrl \<noteq> ''https:'') \<or>
      or_empty (env_MARKETO_CLIENT_ID env) = [] \<or>
      or_empty (env_MARKETO_CLIENT_SECRET env) = [])"


section \<open>Values, requests, responses and thrown errors (index.ts)\<close>

text \<open>
  A JavaScript value as index.ts handles it: the decoded JSON of a response, and the
  \<open>data\<close> object a tool hands to \<open>makeApiRequest\<close>. An object is the list of its own
  enumerable properties in enumeration order. Numbers are the integers.
\<close>

datatype js_value =
    JUndefined
  | JNull
  | JBool bool
  | JNumber int
  | JString string
  | JArray "js_value list"
  | JObject "(string \<times> js_value) list"

type_synonym js_object = "(string \<times> js_value) list"

text \<open>
  The \<open>data\<close> field of the object handed to \<open>axios\<close>: the caller's value as it is
  (\<open>undefined\<close>, written \<open>None\<close>, or an object: the two shapes the tools of index.ts
  pass), or the string produced by \<open>URLSearchParams.toString()\<close>.
\<close>

datatype request_data =
    AsIs "js_object option"
  | FormString string

text \<open>
  The request object: \<open>url\<close>, \<open>method\<close> (the field \<open>http_method\<close>),
  \<open>data\<close>, \<open>headers\<close> and \<open>timeout\<close>.
\<close>

record axios_request =
  url :: string
  http_method :: string
  data :: request_data
  headers :: "(string \<times> string) list"
  timeout :: nat

record http_response =
  status :: nat
  statusText :: "string option"
  response_data :: js_value
  response_headers :: "(string \<times> string) list"

text \<open>
  The value caught as \<open>error: any\<close>. \<open>sanitizeErrorMessage\<close> and the catch block of
  \<open>makeApiRequest\<close> read \<open>response\<close>, \<open>code\<close> and \<open>message\<close>; an error thrown
  by axios also carries \<open>config\<close>, the request it was made with, whose headers hold the
  bearer token. An absent field is \<open>None\<close>.
\<close>

record js_error =
  response :: "http_response option"
  code :: "string option"
  message :: "string option"
  config :: "axios_request option"

text \<open>
  The decimal text of a number, as a template literal prints a non-negative integer.
\<close>

fun decimal :: "nat \<Rightarrow> string" where
  "decimal n =
     (if n < 10 then [''0123456789'' ! n]
      else decimal (n div 10) @ [''0123456789'' ! (n mod 10)])"

declare decimal.simps [simp del]

text \<open>\<open>error.response.statusText || 'Unknown error'\<close>: an absent or empty status text.\<close>

definition or_unknown_error :: "string option \<Rightarrow> string" where
  "or_unknown_error t =
     (case t of None \<Rightarrow> ''Unknown error'' | Some s \<Rightarrow> if s = [] then ''Unknown error'' else s)"

text \<open>
  \<open>sanitizeErrorMessage\<close>. The guard \<open>error.response?.status\<close> holds when there is
  a response whose status is truthy, that is, not \<open>0\<close>;
  \<open>error.message?.includes('timeout')\<close> is false for an absent message.
\<close>

definition sanitizeErrorMessage :: "js_error \<Rightarrow> string" where
  "sanitizeErrorMessage error =
     (case (case response error of
              None \<Rightarrow> None
            | Some r \<Rightarrow> if status r = 0 then None else Some r) of
        Some r \<Rightarrow>
          (let status = status r;
               statusText = or_unknown_error (statusText r)
           in if status = 401 then
                ''Authentication failed. Please check your Marketo credentials.''
              else if status = 403 then
                ''Access denied. Insufficient permissions for this operation.''
              else if status = 404 then
                ''Resource not found.''
              else if status = 429 then
                ''Rate limit exceeded. Please try again later.''
              else if status = 500 \<or> status = 502 \<or> status = 503 then
                ''Marketo service temporarily unavailable. Please try again later.''
              else
                ''Request failed with status '' @ decimal status @ '': '' @ statusText)
      | None \<Rightarrow>
          if code error = Some ''ECONNREFUSED'' \<or> code error = Some ''ENOTFOUND'' then
            ''Unable to connect to Marketo. Please check your network connection and MARKETO_BASE_URL.''
          else if code error = Some ''ECONNABORTED'' \<or>
                  (case message error of None \<Rightarrow> False | Some m \<Rightarrow> sublist ''timeout'' m) then
            ''Request timed out. Please try again.''
          else
            ''An error occurred while processing your request.'')"

subsection \<open>The error taxonomy of the specification\<close>

datatype error_kind =
    AuthFailed
  | Forbidden
  | NotFound
  | RateLimited
  | UpstreamUnavailable
  | NetworkUnreachable
  | Timeout
  | Unknown

text \<open>
  The kind the taxonomy table gives to an HTTP status of a business call: 401, 403, 404,
  429, any 5xx, and \<open>Unknown\<close> for anything else.
\<close>

definition taxonomy_kind :: "nat \<Rightarrow> error_kind" where
  "taxonomy_kind s =
     (if s = 401 then AuthFailed
      else if s = 403 then Forbidden
      else if s = 404 then NotFound
      else if s = 429 then RateLimited
      else if 500 \<le> s \<and> s \<le> 599 then UpstreamUnavailable
      else Unknown)"

text \<open>
  The fixed user-visible message of each kind ("authentication failed", "access denied",
  "resource not found", "rate limit exceeded, retry later", "service unavailable, retry
  later", "cannot connect, check network/config", "request timed out"). \<open>Unknown\<close> has
  no fixed message: its text carries the status code.
\<close>

fun generic_message :: "error_kind \<Rightarrow> string option" where
  "generic_message AuthFailed =
     Some ''Authentication failed. Please check your Marketo credentials.''"
| "generic_message Forbidden =
     Some ''Access denied. Insufficient permissions for this operation.''"
| "generic_message NotFound = Some ''Resource not found.''"
| "generic_message RateLimited = Some ''Rate limit exceeded. Please try again later.''"
| "generic_message UpstreamUnavailable =
     Some ''Marketo service temporarily unavailable. Please try again later.''"
| "generic_message NetworkUnreachable =
     Some ''Unable to connect to Marketo. Please check your network connection and MARKETO_BASE_URL.''"
| "generic_message Timeout = Some ''Request timed out. Please try again.''"
| "generic_message Unknown = None"

text \<open>
  No HTTP status was received: there is no response, or its status is not truthy. This is
  the guard under which \<open>sanitizeErrorMessage\<close> looks at \<open>error.code\<close> and
  \<open>error.message\<close>.
\<close>

definition no_http_status :: "js_error \<Rightarrow> bool" where
  "no_http_status error =
     (case response error of None \<Rightarrow> True | Some r \<Rightarrow> status r = 0)"

definition connection_refused :: "js_error \<Rightarrow> bool" where
  "connection_refused error =
     (code error = Some ''ECONNREFUSED'' \<or> code error = Some ''ENOTFOUND'')"

definition timed_out :: "js_error \<Rightarrow> bool" where
  "timed_out error =
     (code error = Some ''ECONNABORTED'' \<or>
      (case message error of None \<Rightarrow> False | Some m \<Rightarrow> sublist ''timeout'' m))"

text \<open>
  The same error with another response body, other response headers and another request
  configuration (and so another bearer token in its \<open>Authorization\<close> header).
\<close>

definition with_secrets ::
  "js_value \<Rightarrow> (string \<times> string) list \<Rightarrow> axios_request option \<Rightarrow> js_error \<Rightarrow> js_error" where
  "with_secrets body hdrs cfg error =
     error\<lparr>response :=
             (case response error of
                None \<Rightarrow> None
              | Some r \<Rightarrow> Some (r\<lparr>response_data := body, response_headers := hdrs\<rparr>)),
           config := cfg\<rparr>"

subsection \<open>Sample inputs\<close>

definition sample_request :: "string \<Rightarrow> axios_request" where
  "sample_request token =
     \<lparr>url = ''https://123-ABC-456.mktorest.com/rest/v1/leads.json'', http_method = ''GET'',
      data = AsIs None,
      headers = [(''Authorization'', ''Bearer '' @ token), (''Content-Type'', ''application/json'')],
      timeout = 30000\<rparr>"

definition sample_http_error :: "nat \<Rightarrow> string \<Rightarrow> js_value \<Rightarrow> js_error" where
  "sample_http_error st text body =
     \<lparr>response = Some \<lparr>status = st, statusText = Some text, response_data = body,
                         response_headers = [(''set-cookie'', ''session=abc'')]\<rparr>,
      code = Some ''ERR_BAD_RESPONSE'',
      message = Some (''Request failed with status code '' @ decimal st),
      config = Some (sample_request ''T1'')\<rparr>"

definition sample_network_error :: "string \<Rightarrow> string \<Rightarrow> js_error" where
  "sample_network_error c m =
     \<lparr>response = None, code = Some c, message = Some m, config = Some (sample_request ''T1'')\<rparr>"


section \<open>The request dispatcher (index.ts)\<close>

subsection \<open>URLSearchParams\<close>

text \<open>
  \<open>new URLSearchParams(data).toString()\<close> belongs to the runtime; it is modelled as
  the URL standard defines it, for the two shapes of \<open>data\<close> the tools of index.ts
  pass: \<open>undefined\<close> and an object. The constructor turns every property value into a
  string (\<open>ToString\<close>); the serializer writes each name and each value with the
  \<open>application/x-www-form-urlencoded\<close> byte serializer and joins the pairs with
  \<open>&\<close>.
\<close>

fun join :: "string \<Rightarrow> string list \<Rightarrow> string" where
  "join sep [] = []"
| "join sep [x] = x"
| "join sep (x # y # ys) = x @ sep @ join sep (y # ys)"

fun ToString :: "js_value \<Rightarrow> string" where
  "ToString JUndefined = ''undefined''"
| "ToString JNull = ''null''"
| "ToString (JBool b) = (if b then ''true'' else ''false'')"
| "ToString (JNumber n) = (if n < 0 then ''-'' @ decimal (nat (- n)) else decimal (nat n))"
| "ToString (JString s) = s"
| "ToString (JArray xs) =
     join '','' (map (\<lambda>v. if v = JUndefined \<or> v = JNull then [] else ToString v) xs)"
| "ToString (JObject props) = ''[object Object]''"

text \<open>
  The bytes the serializer leaves as they are: \<open>*\<close>, \<open>-\<close>, \<open>.\<close>, \<open>_\<close>, the
  digits and the ASCII letters. A space becomes \<open>+\<close>; any other byte becomes \<open>%\<close>
  and two uppercase hexadecimal digits.
\<close>

definition urlencoded_unreserved :: "char \<Rightarrow> bool" where
  "urlencoded_unreserved c =
     (let n = (of_char c :: nat)
      in n = 42 \<or> n = 45 \<or> n = 46 \<or> n = 95 \<or>
         (48 \<le> n \<and> n \<le> 57) \<or> (65 \<le> n \<and> n \<le> 90) \<or> (97 \<le> n \<and> n \<le> 122))"

definition hex_digit :: "nat \<Rightarrow> char" where
  "hex_digit n = ''0123456789ABCDEF'' ! n"

definition urlencode_byte :: "char \<Rightarrow> string" where
  "urlencode_byte c =
     (if urlencoded_unreserved c then [c]
      else if c = CHR '' '' then ''+''
      else [CHR ''%'', hex_digit ((of_char c :: nat) div 16), hex_digit ((of_char c :: nat) mod 16)])"

definition urlencode :: "string \<Rightarrow> string" where
  "urlencode s = concat (map urlencode_byte s)"

definition URLSearchParams_toString :: "js_object option \<Rightarrow> string" where
  "URLSearchParams_toString init =
     (case init of
        None \<Rightarrow> []
      | Some props \<Rightarrow>
          join ''&'' (map (\<lambda>(name, v). urlencode name @ ''='' @ urlencode (ToString v)) props))"

text \<open>
  A string is in percent-encoded form when it consists of unreserved bytes, \<open>+\<close>, and
  escapes: \<open>%\<close> followed by two uppercase hexadecimal digits.
\<close>

definition is_hex_digit :: "char \<Rightarrow> bool" where
  "is_hex_digit c = (c \<in> set ''0123456789ABCDEF'')"

fun percent_encoded :: "string \<Rightarrow> bool" where
  "percent_encoded [] = True"
| "percent_encoded (c # cs) =
     (if c = CHR ''%'' then
        (case cs of
           a # b # rest \<Rightarrow> is_hex_digit a \<and> is_hex_digit b \<and> percent_encoded rest
         | _ \<Rightarrow> False)
      else (urlencoded_unreserved c \<or> c = CHR ''+'') \<and> percent_encoded cs)"

subsection \<open>makeApiRequest\<close>

text \<open>
  What \<open>makeApiRequest\<close> does to the outside, in order: the call of
  \<open>tokenManager.getToken()\<close>, the call of \<open>axios\<close> with its request, the line
  written with \<open>console.error\<close>.
\<close>

datatype event =
    TokenRequested
  | HttpCall axios_request
  | ConsoleError string

text \<open>
  The object handed to \<open>axios\<close>. \<open>contentType\<close> is the parameter after its default
  has been applied; the \<open>Content-Type\<close> header is set when it is truthy (not empty).
\<close>

definition build_request ::
  "string \<Rightarrow> string \<Rightarrow> string \<Rightarrow> string \<Rightarrow> js_object option \<Rightarrow> string \<Rightarrow> axios_request" where
  "build_request base token endpoint meth body contentType =
     \<lparr>url = base @ endpoint,
      http_method = meth,
      data = (if contentType = ''application/x-www-form-urlencoded''
              then FormString (URLSearchParams_toString body)
              else AsIs body),
      headers = (''Authorization'', ''Bearer '' @ token) #
                (if contentType \<noteq> [] then [(''Content-Type'', contentType)] else []),
      timeout = API_REQUEST_TIMEOUT\<rparr>"

text \<open>\<open>error.code || error.message\<close> inside the template literal of the log line.\<close>

definition code_or_message :: "js_error \<Rightarrow> string" where
  "code_or_message error =
     (case code error of
        Some c \<Rightarrow> if c \<noteq> [] then c
                  else (case message error of None \<Rightarrow> ''undefined'' | Some m \<Rightarrow> m)
      | None \<Rightarrow> (case message error of None \<Rightarrow> ''undefined'' | Some m \<Rightarrow> m))"

text \<open>
  \<open>makeApiRequest\<close>. The token manager (auth.ts) and the transport (axios) are
  parameters: \<open>getToken\<close> takes the state of the token manager and returns the token or
  the thrown error, with the new state; \<open>axios\<close> returns the response, or the error it
  rejects with. The \<open>data\<close> argument is \<open>undefined\<close> (\<open>None\<close>) or an object; an
  omitted \<open>contentType\<close> (\<open>None\<close>) takes the default. The result is the returned value
  or the thrown error, the state of the token manager, and the events in order.
  \<open>getToken\<close> is awaited outside the \<open>try\<close>: its error leaves the function before
  any request is made. Inside the \<open>catch\<close> there is the log line and the rethrow.
\<close>

definition makeApiRequest ::
  "('tm \<Rightarrow> (js_error + string) \<times> 'tm) \<Rightarrow> (axios_request \<Rightarrow> js_error + http_response) \<Rightarrow>
   string \<Rightarrow> string \<Rightarrow> string \<Rightarrow> js_object option \<Rightarrow> string option \<Rightarrow> 'tm \<Rightarrow>
   (js_error + js_value) \<times> 'tm \<times> event list" where
  "makeApiRequest getToken axios base endpoint meth body contentType_arg tm =
     (let contentType = (case contentType_arg of None \<Rightarrow> ''application/json'' | Some c \<Rightarrow> c)
      in case getToken tm of
           (Inl error, tm') \<Rightarrow> (Inl error, tm', [TokenRequested])
         | (Inr token, tm') \<Rightarrow>
             (let request = build_request base token endpoint meth body contentType
              in case axios request of
                   Inr resp \<Rightarrow> (Inr (response_data resp), tm', [TokenRequested, HttpCall request])
                 | Inl error \<Rightarrow>
                     (Inl error, tm',
                      [TokenRequested, HttpCall request,
                       ConsoleError (''API request failed: '' @ meth @ '' '' @ endpoint @
                                     '' - '' @ code_or_message error)])))"

text \<open>
  The body shared by every \<open>server.tool\<close> callback: the value returned by
  \<open>makeApiRequest\<close> is printed with \<open>JSON.stringify(response, null, 2)\<close> (a
  parameter), a thrown error becomes \<open>Error: \<close> and its sanitized message.
\<close>

definition tool_text :: "(js_value \<Rightarrow> string) \<Rightarrow> js_error + js_value \<Rightarrow> string" where
  "tool_text stringify outcome =
     (case outcome of
        Inr v \<Rightarrow> stringify v
      | Inl error \<Rightarrow> ''Error: '' @ sanitizeErrorMessage error)"

definition http_calls :: "event list \<Rightarrow> axios_request list" where
  "http_calls evs = concat (map (\<lambda>e. case e of HttpCall r \<Rightarrow> [r] | _ \<Rightarrow> []) evs)"

definition token_requests :: "event list \<Rightarrow> nat" where
  "token_requests evs = length (filter (\<lambda>e. e = TokenRequested) evs)"

text \<open>
  Reading a percent-encoded string back: \<open>+\<close> is a space, \<open>%\<close> and two
  hexadecimal digits are the byte they write, any other byte is itself.
\<close>

definition hex_value :: "char \<Rightarrow> nat" where
  "hex_value c =
     (let n = (of_char c :: nat) in if 48 \<le> n \<and> n \<le> 57 then n - 48 else n - 55)"

fun percent_decode :: "string \<Rightarrow> string" where
  "percent_decode [] = []"
| "percent_decode (c # cs) =
     (if c = CHR ''+'' then CHR '' '' # percent_decode cs
      else if c = CHR ''%'' then
        (case cs of
           a # b # rest \<Rightarrow> char_of (16 * hex_value a + hex_value b) # percent_decode rest
         | _ \<Rightarrow> c # percent_decode cs)
      else c # percent_decode cs)"

subsection \<open>Sample collaborators\<close>

text \<open>
  A token manager that always answers \<open>T1\<close> and counts its calls, a transport that
  answers 200 with a small envelope, and one that rejects with a 401.
\<close>

definition sample_getToken :: "nat \<Rightarrow> (js_error + string) \<times> nat" where
  "sample_getToken calls = (Inr ''T1'', Suc calls)"

definition sample_envelope :: js_value where
  "sample_envelope =
     JObject [(''success'', JBool True), (''requestId'', JString ''e42b#14272d07d78''),
              (''result'', JArray [JObject [(''id'', JNumber 318581)]])]"

definition sample_axios_ok :: "axios_request \<Rightarrow> js_error + http_response" where
  "sample_axios_ok request =
     Inr \<lparr>status = 200, statusText = Some ''OK'', response_data = sample_envelope,
          response_headers = [(''content-type'', ''application/json'')]\<rparr>"

definition sample_error_401 :: "axios_request \<Rightarrow> js_error" where
  "sample_error_401 request =
     \<lparr>response = Some \<lparr>status = 401, statusText = Some ''Unauthorized'',
                         response_data = JObject [(''errors'', JString ''Access token invalid'')],
                         response_headers = []\<rparr>,
      code = Some ''ERR_BAD_REQUEST'',
      message = Some ''Request failed with status code 401'',
      config = Some request\<rparr>"

definition sample_axios_401 :: "axios_request \<Rightarrow> js_error + http_response" where
  "sample_axios_401 request = Inl (sample_error_401 request)"

definition sample_request_lead :: "string \<Rightarrow> axios_request" where
  "sample_request_lead token =
     \<lparr>url = ''https://123-ABC-456.mktorest.com/rest/v1/lead/318581.json'', http_method = ''GET'',
      data = AsIs None,
      headers = [(''Authorization'', ''Bearer '' @ token), (''Content-Type'', ''application/json'')],
      timeout = 30000\<rparr>"

text \<open>The form data of the clone tool when no description is given.\<close>

definition sample_form_data :: js_object where
  "sample_form_data =
     [(''name'', JString ''My Form & co''), (''description'', JUndefined),
      (''folder'', JString ''{\"id\":12,\"type\":\"Folder\"}'')]"


section \<open>The token manager (auth.ts)\<close>

text \<open>
  Modelled from the spec: the class \<open>TokenManager\<close> of auth.ts, which index.ts imports
  and which is not among the sources. The model follows section 4.1 of the specification
  (\<open>getToken\<close>, steps 1 to 4), the data model of section 3 (AccessToken,
  PendingRefresh) and the scheduling model of section 5: one unit of work runs at a time,
  so a call of \<open>getToken\<close> up to its suspension point, and the settling of the token
  request, are atomic steps that interleave.
\<close>

record access_token =
  tokenValue :: string
  expiresAt :: int

text \<open>
  Modelled from the spec: the recommended safety margin of 60 seconds, and the invariant
  of AccessToken: it is usable without a network call when it is present and
  \<open>now < expiresAt - margin\<close>.
\<close>

definition safety_margin :: int where
  "safety_margin = 60"

definition usable :: "access_token option \<Rightarrow> int \<Rightarrow> bool" where
  "usable cached_token now =
     (case cached_token of None \<Rightarrow> False | Some a \<Rightarrow> now < expiresAt a - safety_margin)"

text \<open>
  Modelled from the spec: what a call of \<open>getToken\<close> resolves to, the token value
  or a failure of one of the kinds of the taxonomy.
\<close>

datatype token_outcome =
    Resolved string
  | Rejected error_kind

text \<open>
  Modelled from the spec: the state of one TokenManager. \<open>cached\<close> is the cached
  AccessToken; \<open>pending\<close> is the PendingRefresh slot, holding the callers that await the
  request in flight; \<open>token_calls\<close> counts the requests issued to the token endpoint;
  \<open>delivered\<close> lists, in order, what each call of \<open>getToken\<close> resolved to.
\<close>

record token_manager =
  cached :: "access_token option"
  pending :: "nat list option"
  token_calls :: nat
  delivered :: "(nat \<times> token_outcome) list"

text \<open>
  Modelled from the spec: the two atomic steps of section 5. Caller \<open>c\<close> calls \<open>getToken\<close> at time \<open>now\<close>; the request in
  flight settles at time \<open>now\<close> with a failure or with the parsed
  \<open>access_token\<close> and \<open>expires_in\<close>.
\<close>

datatype tm_event =
    GetToken nat int
  | RefreshSettled int "error_kind + string \<times> int"

text \<open>
  Modelled from the spec: \<open>getToken\<close>, section 4.1. Step 1: a usable cached token is
  returned with no network access. Step 2: otherwise, if a refresh is in flight, the
  caller awaits it. Step 3: otherwise a request is issued and the caller awaits it; when
  it succeeds, \<open>expiresAt = now + expires_in\<close>, the new AccessToken replaces the cached
  one and every waiter resolves with the token value. Step 4: when it fails, every waiter
  fails, the cached AccessToken is left untouched and the slot is cleared.
\<close>

fun tm_step :: "token_manager \<Rightarrow> tm_event \<Rightarrow> token_manager" where
  "tm_step tm (GetToken c now) =
     (if usable (cached tm) now then
        (case cached tm of
           Some a \<Rightarrow> tm\<lparr>delivered := delivered tm @ [(c, Resolved (tokenValue a))]\<rparr>
         | None \<Rightarrow> tm)
      else
        (case pending tm of
           Some waiters \<Rightarrow> tm\<lparr>pending := Some (waiters @ [c])\<rparr>
         | None \<Rightarrow> tm\<lparr>pending := Some [c], token_calls := token_calls tm + 1\<rparr>))"
| "tm_step tm (RefreshSettled now result) =
     (case pending tm of
        None \<Rightarrow> tm
      | Some waiters \<Rightarrow>
          (case result of
             Inr (access_token, expires_in) \<Rightarrow>
               tm\<lparr>cached := Some \<lparr>tokenValue = access_token, expiresAt = now + expires_in\<rparr>,
                  pending := None,
                  delivered := delivered tm @ map (\<lambda>c. (c, Resolved access_token)) waiters\<rparr>
           | Inl failure \<Rightarrow>
               tm\<lparr>pending := None,
                  delivered := delivered tm @ map (\<lambda>c. (c, Rejected failure)) waiters\<rparr>))"

text \<open>
  Modelled from the spec: a schedule is a list of steps, run from left to right; the
  outcome a response gives to the waiters; the token manager as constructed.
\<close>

definition tm_run :: "token_manager \<Rightarrow> tm_event list \<Rightarrow> token_manager" where
  "tm_run tm evs = foldl tm_step tm evs"

definition outcome_of :: "error_kind + string \<times> int \<Rightarrow> token_outcome" where
  "outcome_of result =
     (case result of Inr (access_token, expires_in) \<Rightarrow> Resolved access_token
      | Inl failure \<Rightarrow> Rejected failure)"

definition new_token_manager :: token_manager where
  "new_token_manager = \<lparr>cached = None, pending = None, token_calls = 0, delivered = []\<rparr>"


section \<open>The base URL\<close>

lemma slashes_to_end_iff:
  "slashes_to_end s \<longleftrightarrow> s \<noteq> [] \<and> (\<forall>c \<in> set s. c = CHR ''/'')"
  by (induction s) auto

lemma replace_trailing_slashes_append:
  "\<exists>n. s = replace_trailing_slashes s @ replicate n (CHR ''/'')"
proof (induction s)
  case Nil
  show ?case by simp
next
  case (Cons c cs)
  show ?case
  proof (cases "slashes_to_end (c # cs)")
    case True
    then have "\<forall>x \<in> set (c # cs). x = CHR ''/''"
      by (simp add: slashes_to_end_iff)
    then have "c # cs = replicate (length (c # cs)) (CHR ''/'')"
      by (simp only: replicate_length_same)
    moreover from True have "replace_trailing_slashes (c # cs) = []" by simp
    ultimately have "c # cs = replace_trailing_slashes (c # cs) @ replicate (length (c # cs)) (CHR ''/'')"
      by simp
    then show ?thesis ..
  next
    case False
    from Cons obtain n where n: "cs = replace_trailing_slashes cs @ replicate n (CHR ''/'')"
      by blast
    from False have "replace_trailing_slashes (c # cs) = c # replace_trailing_slashes cs" by simp
    with n have "c # cs = replace_trailing_slashes (c # cs) @ replicate n (CHR ''/'')"
      by simp
    then show ?thesis ..
  qed
qed

lemma dropWhile_snoc_keep:
  "\<not> P c \<or> (\<exists>x \<in> set xs. \<not> P x) \<Longrightarrow> dropWhile P (xs @ [c]) = dropWhile P xs @ [c]"
  by (induction xs) auto

lemma replace_trailing_slashes_refines:
  "replace_trailing_slashes s = without_trailing_slashes s"
proof (induction s)
  case Nil
  show ?case by (simp add: without_trailing_slashes_def)
next
  case (Cons c cs)
  show ?case
  proof (cases "slashes_to_end (c # cs)")
    case True
    then have "\<forall>x \<in> set (rev (c # cs)). x = CHR ''/''"
      by (simp add: slashes_to_end_iff)
    then have "dropWhile (\<lambda>c. c = CHR ''/'') (rev (c # cs)) = []"
      by (simp only: dropWhile_eq_Nil_conv)
    with True show ?thesis
      by (simp add: without_trailing_slashes_def)
  next
    case False
    then have "c \<noteq> CHR ''/'' \<or> (\<exists>x \<in> set (rev cs). x \<noteq> CHR ''/'')"
      by (auto simp: slashes_to_end_iff)
    then have "dropWhile (\<lambda>c. c = CHR ''/'') (rev cs @ [c]) =
          dropWhile (\<lambda>c. c = CHR ''/'') (rev cs) @ [c]"
      by (rule dropWhile_snoc_keep)
    with False Cons show ?thesis
      by (simp add: without_trailing_slashes_def)
  qed
qed

lemma dropWhile_hd: "dropWhile P xs = y # ys \<Longrightarrow> \<not> P y"
  by (induction xs) (auto split: if_splits)

lemma without_trailing_slashes_no_slash:
  "\<not> suffix ''/'' (without_trailing_slashes s)"
proof
  assume "suffix ''/'' (without_trailing_slashes s)"
  then obtain p where p: "rev (dropWhile (\<lambda>c. c = CHR ''/'') (rev s)) = p @ ''/''"
    by (auto simp: suffix_def without_trailing_slashes_def)
  then have "rev (rev (dropWhile (\<lambda>c. c = CHR ''/'') (rev s))) = rev (p @ ''/'')"
    by (simp only:)
  then have "dropWhile (\<lambda>c. c = CHR ''/'') (rev s) = CHR ''/'' # rev p"
    by simp
  then show False
    by (auto dest: dropWhile_hd)
qed

text \<open>
  Claim C10. Whenever \<open>validateMarketoUrl\<close> accepts its input (the input is not
  empty, the URL constructor parses it, and the protocol is \<open>https:\<close>), the base URL
  it returns is the input with all trailing \<open>/\<close> characters removed: the input is the
  result followed by slashes only, and the result does not end with \<open>/\<close>.
\<close>

theorem validateMarketoUrl_strips_trailing_slashes:
  assumes "rawBaseUrl \<noteq> []" and "URL rawBaseUrl = Some p" and "protocol p = ''https:''"
  shows "\<exists>w n. validateMarketoUrl URL rawBaseUrl = Inr (w, without_trailing_slashes rawBaseUrl) \<and>
               rawBaseUrl = without_trailing_slashes rawBaseUrl @ replicate n (CHR ''/'') \<and>
               \<not> suffix ''/'' (without_trailing_slashes rawBaseUrl)"
proof -
  obtain n where "rawBaseUrl = replace_trailing_slashes rawBaseUrl @ replicate n (CHR ''/'')"
    using replace_trailing_slashes_append by blast
  then have n: "rawBaseUrl = without_trailing_slashes rawBaseUrl @ replicate n (CHR ''/'')"
    by (simp only: replace_trailing_slashes_refines)
  from assms have "\<exists>w. validateMarketoUrl URL rawBaseUrl = Inr (w, without_trailing_slashes rawBaseUrl)"
    by (simp add: validateMarketoUrl_def replace_trailing_slashes_refines)
  with n without_trailing_slashes_no_slash show ?thesis
    by blast
qed

theorem validateMarketoUrl_strips_trailing_slashes_witness:
  "''https://123-ABC-456.mktorest.com//'' \<noteq> [] \<and>
   sample_URL ''https://123-ABC-456.mktorest.com//'' =
     Some \<lparr>protocol = ''https:'', hostname = ''123-ABC-456.mktorest.com''\<rparr> \<and>
   validateMarketoUrl sample_URL ''https://123-ABC-456.mktorest.com//'' =
     Inr ([], ''https://123-ABC-456.mktorest.com'') \<and>
   (\<exists>w n. validateMarketoUrl sample_URL ''https://123-ABC-456.mktorest.com//'' =
            Inr (w, without_trailing_slashes ''https://123-ABC-456.mktorest.com//'') \<and>
          ''https://123-ABC-456.mktorest.com//'' =
            without_trailing_slashes ''https://123-ABC-456.mktorest.com//'' @
            replicate n (CHR ''/'') \<and>
          \<not> suffix ''/'' (without_trailing_slashes ''https://123-ABC-456.mktorest.com//''))"
proof -
  have h1: "''https://123-ABC-456.mktorest.com//'' \<noteq> []"
    by simp
  have h2: "sample_URL ''https://123-ABC-456.mktorest.com//'' =
     Some \<lparr>protocol = ''https:'', hostname = ''123-ABC-456.mktorest.com''\<rparr>"
    by (simp add: sample_URL_def)
  have h3: "protocol \<lparr>protocol = ''https:'', hostname = ''123-ABC-456.mktorest.com''\<rparr> = ''https:''"
    by simp
  have v: "validateMarketoUrl sample_URL ''https://123-ABC-456.mktorest.com//'' =
     Inr ([], ''https://123-ABC-456.mktorest.com'')"
    by code_simp
  from h1 h2 v
    validateMarketoUrl_strips_trailing_slashes
      [where rawBaseUrl = "''https://123-ABC-456.mktorest.com//''" and URL = sample_URL
         and p = "\<lparr>protocol = ''https:'', hostname = ''123-ABC-456.mktorest.com''\<rparr>",
       OF h1 h2 h3]
  show ?thesis
    by blast
qed

text \<open>
  Claim C6. Construction of the core fails (throws, so the process does not start)
  whenever the configuration is misconfigured: base URL absent, not parseable or not
  HTTPS, or an empty client id or client secret. For every other configuration it
  succeeds, with the base URL stripped of its trailing slashes and the two credentials as
  given.
\<close>

theorem construct_core_fail_fast:
  "(misconfigured URL env \<longrightarrow> (\<exists>e. construct_core URL env = Inl e)) \<and>
   (\<not> misconfigured URL env \<longrightarrow>
      construct_core URL env =
        Inr \<lparr>MARKETO_BASE_URL = without_trailing_slashes (or_empty (env_MARKETO_BASE_URL env)),
             MARKETO_CLIENT_ID = or_empty (env_MARKETO_CLIENT_ID env),
             MARKETO_CLIENT_SECRET = or_empty (env_MARKETO_CLIENT_SECRET env)\<rparr>)"
  by (auto simp: misconfigured_def construct_core_def validateMarketoUrl_def
        replace_trailing_slashes_refines split: option.splits sum.splits)

theorem construct_core_fail_fast_witness:
  "misconfigured sample_URL
     \<lparr>env_MARKETO_BASE_URL = Some ''http://123-ABC-456.mktorest.com'',
      env_MARKETO_CLIENT_ID = Some ''id'', env_MARKETO_CLIENT_SECRET = Some ''secret''\<rparr> \<and>
   (\<exists>e. construct_core sample_URL
     \<lparr>env_MARKETO_BASE_URL = Some ''http://123-ABC-456.mktorest.com'',
      env_MARKETO_CLIENT_ID = Some ''id'', env_MARKETO_CLIENT_SECRET = Some ''secret''\<rparr> = Inl e) \<and>
   misconfigured sample_URL
     \<lparr>env_MARKETO_BASE_URL = Some ''https://123-ABC-456.mktorest.com'',
      env_MARKETO_CLIENT_ID = Some ''id'', env_MARKETO_CLIENT_SECRET = None\<rparr> \<and>
   (\<exists>e. construct_core sample_URL
     \<lparr>env_MARKETO_BASE_URL = Some ''https://123-ABC-456.mktorest.com'',
      env_MARKETO_CLIENT_ID = Some ''id'', env_MARKETO_CLIENT_SECRET = None\<rparr> = Inl e) \<and>
   \<not> misconfigured sample_URL
     \<lparr>env_MARKETO_BASE_URL = Some ''https://123-ABC-456.mktorest.com/'',
      env_MARKETO_CLIENT_ID = Some ''id'', env_MARKETO_CLIENT_SECRET = Some ''secret''\<rparr> \<and>
   construct_core sample_URL
     \<lparr>env_MARKETO_BASE_URL = Some ''https://123-ABC-456.mktorest.com/'',
      env_MARKETO_CLIENT_ID = Some ''id'', env_MARKETO_CLIENT_SECRET = Some ''secret''\<rparr> =
     Inr \<lparr>MARKETO_BASE_URL = ''https://123-ABC-456.mktorest.com'',
          MARKETO_CLIENT_ID = ''id'', MARKETO_CLIENT_SECRET = ''secret''\<rparr>"
proof -
  have m1: "misconfigured sample_URL
     \<lparr>env_MARKETO_BASE_URL = Some ''http://123-ABC-456.mktorest.com'',
      env_MARKETO_CLIENT_ID = Some ''id'', env_MARKETO_CLIENT_SECRET = Some ''secret''\<rparr>"
    by (simp add: misconfigured_def or_empty_def sample_URL_def)
  have m2: "misconfigured sample_URL
     \<lparr>env_MARKETO_BASE_URL = Some ''https://123-ABC-456.mktorest.com'',
      env_MARKETO_CLIENT_ID = Some ''id'', env_MARKETO_CLIENT_SECRET = None\<rparr>"
    by (simp add: misconfigured_def or_empty_def sample_URL_def)
  have m3: "\<not> misconfigured sample_URL
     \<lparr>env_MARKETO_BASE_URL = Some ''https://123-ABC-456.mktorest.com/'',
      env_MARKETO_CLIENT_ID = Some ''id'', env_MARKETO_CLIENT_SECRET = Some ''secret''\<rparr>"
    by (simp add: misconfigured_def or_empty_def sample_URL_def)
  have w: "without_trailing_slashes ''https://123-ABC-456.mktorest.com/'' =
      ''https://123-ABC-456.mktorest.com''"
    by (simp add: without_trailing_slashes_def)
  from m1 m2 m3
    construct_core_fail_fast [of sample_URL
     "\<lparr>env_MARKETO_BASE_URL = Some ''http://123-ABC-456.mktorest.com'',
      env_MARKETO_CLIENT_ID = Some ''id'', env_MARKETO_CLIENT_SECRET = Some ''secret''\<rparr>"]
    construct_core_fail_fast [of sample_URL
     "\<lparr>env_MARKETO_BASE_URL = Some ''https://123-ABC-456.mktorest.com'',
      env_MARKETO_CLIENT_ID = Some ''id'', env_MARKETO_CLIENT_SECRET = None\<rparr>"]
    construct_core_fail_fast [of sample_URL
     "\<lparr>env_MARKETO_BASE_URL = Some ''https://123-ABC-456.mktorest.com/'',
      env_MARKETO_CLIENT_ID = Some ''id'', env_MARKETO_CLIENT_SECRET = Some ''secret''\<rparr>"]
  show ?thesis
    by (simp add: w or_empty_def)
qed


section \<open>Sanitized error messages\<close>

lemma sanitize_ignores_secrets:
  "sanitizeErrorMessage (with_secrets body hdrs cfg error) = sanitizeErrorMessage error"
  by (simp add: sanitizeErrorMessage_def with_secrets_def split: option.splits)

lemma sanitize_status:
  assumes "response error = Some r" and "status r \<noteq> 0"
  shows "sanitizeErrorMessage error =
     (if status r = 401 then ''Authentication failed. Please check your Marketo credentials.''
      else if status r = 403 then ''Access denied. Insufficient permissions for this operation.''
      else if status r = 404 then ''Resource not found.''
      else if status r = 429 then ''Rate limit exceeded. Please try again later.''
      else if status r = 500 \<or> status r = 502 \<or> status r = 503 then
        ''Marketo service temporarily unavailable. Please try again later.''
      else ''Request failed with status '' @ decimal (status r) @ '': '' @
           or_unknown_error (statusText r))"
  using assms by (simp add: sanitizeErrorMessage_def Let_def)

lemma sanitize_no_status:
  assumes "no_http_status error"
  shows "sanitizeErrorMessage error =
     (if connection_refused error then
        ''Unable to connect to Marketo. Please check your network connection and MARKETO_BASE_URL.''
      else if timed_out error then ''Request timed out. Please try again.''
      else ''An error occurred while processing your request.'')"
proof -
  from assms have "(case response error of None \<Rightarrow> None
                    | Some r \<Rightarrow> if status r = 0 then None else Some r) = None"
    by (cases "response error") (simp_all add: no_http_status_def)
  then show ?thesis
    by (simp add: sanitizeErrorMessage_def connection_refused_def timed_out_def)
qed

text \<open>
  Claim C1, as the specification states it: every timeout condition (code
  \<open>ECONNABORTED\<close>, or a message containing \<open>timeout\<close>) yields the message of
  Timeout. It fails for a DNS failure whose message contains \<open>timeout\<close>: no HTTP
  status was received, the code is \<open>ENOTFOUND\<close>, and \<open>sanitizeErrorMessage\<close>
  tests \<open>ECONNREFUSED\<close> and \<open>ENOTFOUND\<close> before it looks for a timeout, so the
  message of NetworkUnreachable is returned.
\<close>

theorem sanitizeErrorMessage_precedence_counterexample:
  "no_http_status
     (sample_network_error ''ENOTFOUND'' ''getaddrinfo ENOTFOUND timeout.mktorest.com'') \<and>
   timed_out
     (sample_network_error ''ENOTFOUND'' ''getaddrinfo ENOTFOUND timeout.mktorest.com'') \<and>
   sanitizeErrorMessage
     (sample_network_error ''ENOTFOUND'' ''getaddrinfo ENOTFOUND timeout.mktorest.com'') =
     ''Unable to connect to Marketo. Please check your network connection and MARKETO_BASE_URL.'' \<and>
   Some (sanitizeErrorMessage
           (sample_network_error ''ENOTFOUND'' ''getaddrinfo ENOTFOUND timeout.mktorest.com'')) \<noteq>
     generic_message Timeout"
proof -
  let ?e = "sample_network_error ''ENOTFOUND'' ''getaddrinfo ENOTFOUND timeout.mktorest.com''"
  have n: "no_http_status ?e"
    by (simp add: sample_network_error_def no_http_status_def)
  have t: "timed_out ?e"
    by code_simp
  have s: "sanitizeErrorMessage ?e =
     ''Unable to connect to Marketo. Please check your network connection and MARKETO_BASE_URL.''"
    by (simp add: sanitizeErrorMessage_def sample_network_error_def)
  have d: "Some (sanitizeErrorMessage ?e) \<noteq> generic_message Timeout"
    unfolding s by simp
  from n t s d show ?thesis
    by blast
qed

text \<open>
  Claim C1, amended. For every error whose HTTP status is one of 401, 403, 404, 429, 500, 502,
  503 the sanitized string is the fixed message of the status's taxonomy kind; when no
  HTTP status was received, a connection-refused error (code \<open>ECONNREFUSED\<close> or
  \<open>ENOTFOUND\<close>) gives the fixed message of NetworkUnreachable, and a timeout (code
  \<open>ECONNABORTED\<close>, or a message containing \<open>timeout\<close>) that is not a
  connection-refused error gives the fixed message of Timeout. The string is the same
  whatever the response body, the response headers and the request configuration that
  carries the bearer token are: nothing of them is copied into it.
\<close>

theorem sanitizeErrorMessage_listed_conditions:
  "(\<forall>r. response error = Some r \<and> status r \<in> {401, 403, 404, 429, 500, 502, 503} \<longrightarrow>
        Some (sanitizeErrorMessage error) = generic_message (taxonomy_kind (status r))) \<and>
   (no_http_status error \<and> connection_refused error \<longrightarrow>
        Some (sanitizeErrorMessage error) = generic_message NetworkUnreachable) \<and>
   (no_http_status error \<and> \<not> connection_refused error \<and> timed_out error \<longrightarrow>
        Some (sanitizeErrorMessage error) = generic_message Timeout) \<and>
   sanitizeErrorMessage (with_secrets body hdrs cfg error) = sanitizeErrorMessage error"
proof (intro conjI allI impI)
  fix r
  assume a: "response error = Some r \<and> status r \<in> {401, 403, 404, 429, 500, 502, 503}"
  then have r: "response error = Some r" and nz: "status r \<noteq> 0"
    by auto
  have "sanitizeErrorMessage error =
     (if status r = 401 then ''Authentication failed. Please check your Marketo credentials.''
      else if status r = 403 then ''Access denied. Insufficient permissions for this operation.''
      else if status r = 404 then ''Resource not found.''
      else if status r = 429 then ''Rate limit exceeded. Please try again later.''
      else if status r = 500 \<or> status r = 502 \<or> status r = 503 then
        ''Marketo service temporarily unavailable. Please try again later.''
      else ''Request failed with status '' @ decimal (status r) @ '': '' @
           or_unknown_error (statusText r))"
    by (rule sanitize_status [OF r nz])
  moreover from a have "status r = 401 \<or> status r = 403 \<or> status r = 404 \<or> status r = 429 \<or>
      status r = 500 \<or> status r = 502 \<or> status r = 503"
    by simp
  ultimately show "Some (sanitizeErrorMessage error) = generic_message (taxonomy_kind (status r))"
    by (elim disjE) (simp_all add: taxonomy_kind_def)
next
  assume "no_http_status error \<and> connection_refused error"
  then show "Some (sanitizeErrorMessage error) = generic_message NetworkUnreachable"
    by (simp add: sanitize_no_status)
next
  assume "no_http_status error \<and> \<not> connection_refused error \<and> timed_out error"
  then show "Some (sanitizeErrorMessage error) = generic_message Timeout"
    by (simp add: sanitize_no_status)
next
  show "sanitizeErrorMessage (with_secrets body hdrs cfg error) = sanitizeErrorMessage error"
    by (rule sanitize_ignores_secrets)
qed

theorem sanitizeErrorMessage_listed_conditions_witness:
  "Some (sanitizeErrorMessage (sample_http_error 401 ''Unauthorized'' (JString ''invalid token T1''))) =
     generic_message AuthFailed \<and>
   Some (sanitizeErrorMessage (sample_http_error 503 ''Service Unavailable'' JNull)) =
     generic_message UpstreamUnavailable \<and>
   no_http_status (sample_network_error ''ECONNREFUSED'' ''connect ECONNREFUSED 10.0.0.1:443'') \<and>
   connection_refused (sample_network_error ''ECONNREFUSED'' ''connect ECONNREFUSED 10.0.0.1:443'') \<and>
   Some (sanitizeErrorMessage
           (sample_network_error ''ECONNREFUSED'' ''connect ECONNREFUSED 10.0.0.1:443'')) =
     generic_message NetworkUnreachable \<and>
   no_http_status (sample_network_error ''ECONNABORTED'' ''timeout of 30000ms exceeded'') \<and>
   \<not> connection_refused (sample_network_error ''ECONNABORTED'' ''timeout of 30000ms exceeded'') \<and>
   timed_out (sample_network_error ''ECONNABORTED'' ''timeout of 30000ms exceeded'') \<and>
   Some (sanitizeErrorMessage
           (sample_network_error ''ECONNABORTED'' ''timeout of 30000ms exceeded'')) =
     generic_message Timeout"
proof -
  let ?r401 = "\<lparr>status = 401, statusText = Some ''Unauthorized'',
                 response_data = JString ''invalid token T1'',
                 response_headers = [(''set-cookie'', ''session=abc'')]\<rparr>"
  let ?r503 = "\<lparr>status = 503, statusText = Some ''Service Unavailable'',
                 response_data = JNull,
                 response_headers = [(''set-cookie'', ''session=abc'')]\<rparr>"
  let ?refused = "sample_network_error ''ECONNREFUSED'' ''connect ECONNREFUSED 10.0.0.1:443''"
  let ?aborted = "sample_network_error ''ECONNABORTED'' ''timeout of 30000ms exceeded''"
  have a: "response (sample_http_error 401 ''Unauthorized'' (JString ''invalid token T1'')) =
             Some ?r401 \<and> status ?r401 \<in> {401, 403, 404, 429, 500, 502, 503}"
    by (simp add: sample_http_error_def)
  have b: "response (sample_http_error 503 ''Service Unavailable'' JNull) =
             Some ?r503 \<and> status ?r503 \<in> {401, 403, 404, 429, 500, 502, 503}"
    by (simp add: sample_http_error_def)
  have k: "taxonomy_kind (status ?r401) = AuthFailed"
          "taxonomy_kind (status ?r503) = UpstreamUnavailable"
    by (simp_all add: taxonomy_kind_def)
  have c: "no_http_status ?refused \<and> connection_refused ?refused"
    by (simp add: sample_network_error_def no_http_status_def connection_refused_def)
  have d: "no_http_status ?aborted \<and> \<not> connection_refused ?aborted \<and> timed_out ?aborted"
    by (simp add: sample_network_error_def no_http_status_def connection_refused_def
          timed_out_def)
  from a b c d k
    sanitizeErrorMessage_listed_conditions
      [of "sample_http_error 401 ''Unauthorized'' (JString ''invalid token T1'')"]
    sanitizeErrorMessage_listed_conditions
      [of "sample_http_error 503 ''Service Unavailable'' JNull"]
    sanitizeErrorMessage_listed_conditions [of ?refused]
    sanitizeErrorMessage_listed_conditions [of ?aborted]
  show ?thesis
    by metis
qed

text \<open>
  Claim C3, as the specification states it: every status from 500 to 599 yields the
  message of UpstreamUnavailable. It fails at 504: the switch lists 500, 502 and 503 only,
  and 504 takes the default branch.
\<close>

theorem sanitizeErrorMessage_504_counterexample:
  "response (sample_http_error 504 ''Gateway Timeout'' JNull) =
     Some \<lparr>status = 504, statusText = Some ''Gateway Timeout'', response_data = JNull,
           response_headers = [(''set-cookie'', ''session=abc'')]\<rparr> \<and>
   taxonomy_kind 504 = UpstreamUnavailable \<and>
   sanitizeErrorMessage (sample_http_error 504 ''Gateway Timeout'' JNull) =
     ''Request failed with status 504: Gateway Timeout'' \<and>
   Some (sanitizeErrorMessage (sample_http_error 504 ''Gateway Timeout'' JNull)) \<noteq>
     generic_message UpstreamUnavailable"
proof -
  have "decimal 504 = ''504''"
    by code_simp
  then show ?thesis
    by (simp add: sample_http_error_def sanitizeErrorMessage_def taxonomy_kind_def
          or_unknown_error_def)
qed

text \<open>
  Claim C3, amended. For a business-call error with status 500, 502 or 503 the sanitized
  string is the message of UpstreamUnavailable; every other status from 500 to 599 is
  reported as \<open>Request failed with status\<close>, the status code, and the status text.
\<close>

theorem sanitizeErrorMessage_5xx:
  assumes "response error = Some r" and "500 \<le> status r" and "status r \<le> 599"
  shows "(status r \<in> {500, 502, 503} \<longrightarrow>
            Some (sanitizeErrorMessage error) = generic_message UpstreamUnavailable) \<and>
         (status r \<notin> {500, 502, 503} \<longrightarrow>
            sanitizeErrorMessage error =
              ''Request failed with status '' @ decimal (status r) @ '': '' @
              or_unknown_error (statusText r))"
proof -
  from assms have nz: "status r \<noteq> 0"
    by simp
  from assms show ?thesis
    unfolding sanitize_status [OF assms(1) nz] by auto
qed

theorem sanitizeErrorMessage_5xx_witness:
  "Some (sanitizeErrorMessage (sample_http_error 502 ''Bad Gateway'' JNull)) =
     generic_message UpstreamUnavailable \<and>
   sanitizeErrorMessage (sample_http_error 501 ''Not Implemented'' JNull) =
     ''Request failed with status 501: Not Implemented''"
proof -
  let ?r502 = "\<lparr>status = 502, statusText = Some ''Bad Gateway'', response_data = JNull,
                 response_headers = [(''set-cookie'', ''session=abc'')]\<rparr>"
  let ?r501 = "\<lparr>status = 501, statusText = Some ''Not Implemented'', response_data = JNull,
                 response_headers = [(''set-cookie'', ''session=abc'')]\<rparr>"
  have a: "response (sample_http_error 502 ''Bad Gateway'' JNull) = Some ?r502"
    by (simp add: sample_http_error_def)
  have b: "response (sample_http_error 501 ''Not Implemented'' JNull) = Some ?r501"
    by (simp add: sample_http_error_def)
  have d: "decimal 501 = ''501''"
    by code_simp
  from sanitizeErrorMessage_5xx [OF a] sanitizeErrorMessage_5xx [OF b] d show ?thesis
    by (simp add: or_unknown_error_def)
qed

text \<open>
  Claim C9. For every error response whose status is none of the listed ones (and is a
  status at all, that is, not 0), the sanitized string is \<open>Request failed with status\<close>
  followed by the decimal status code and the status text of the response; it contains
  the status code, and it is the same whatever the response body, the response headers
  and the request configuration are. An error without a response that is neither a
  connection-refused error nor a timeout gets one fixed sentence.
\<close>

theorem sanitizeErrorMessage_unknown:
  "(\<forall>r. response error = Some r \<and> status r \<noteq> 0 \<and>
         status r \<notin> {401, 403, 404, 429, 500, 502, 503} \<longrightarrow>
         sanitizeErrorMessage error =
           ''Request failed with status '' @ decimal (status r) @ '': '' @
           or_unknown_error (statusText r) \<and>
         sublist (decimal (status r)) (sanitizeErrorMessage error)) \<and>
   (no_http_status error \<and> \<not> connection_refused error \<and> \<not> timed_out error \<longrightarrow>
      sanitizeErrorMessage error = ''An error occurred while processing your request.'') \<and>
   sanitizeErrorMessage (with_secrets body hdrs cfg error) = sanitizeErrorMessage error"
proof (intro conjI allI impI)
  fix r
  assume a: "response error = Some r \<and> status r \<noteq> 0 \<and>
             status r \<notin> {401, 403, 404, 429, 500, 502, 503}"
  then have r: "response error = Some r" and nz: "status r \<noteq> 0"
    by auto
  from a show eq: "sanitizeErrorMessage error =
           ''Request failed with status '' @ decimal (status r) @ '': '' @
           or_unknown_error (statusText r)"
    unfolding sanitize_status [OF r nz] by auto
  show "sublist (decimal (status r)) (sanitizeErrorMessage error)"
    unfolding eq by (rule sublist_appendI)
next
  assume "no_http_status error \<and> \<not> connection_refused error \<and> \<not> timed_out error"
  then show "sanitizeErrorMessage error = ''An error occurred while processing your request.''"
    by (simp add: sanitize_no_status)
next
  show "sanitizeErrorMessage (with_secrets body hdrs cfg error) = sanitizeErrorMessage error"
    by (rule sanitize_ignores_secrets)
qed

theorem sanitizeErrorMessage_unknown_witness:
  "sanitizeErrorMessage
     (sample_http_error 418 ''I am a teapot'' (JObject [(''errors'', JString ''secret detail'')])) =
     ''Request failed with status 418: I am a teapot'' \<and>
   sublist ''418''
     (sanitizeErrorMessage
        (sample_http_error 418 ''I am a teapot'' (JObject [(''errors'', JString ''secret detail'')]))) \<and>
   sanitizeErrorMessage (sample_network_error ''ERR_BAD_OPTION'' ''bad option'') =
     ''An error occurred while processing your request.''"
proof -
  let ?e = "sample_http_error 418 ''I am a teapot'' (JObject [(''errors'', JString ''secret detail'')])"
  let ?r = "\<lparr>status = 418, statusText = Some ''I am a teapot'',
              response_data = JObject [(''errors'', JString ''secret detail'')],
              response_headers = [(''set-cookie'', ''session=abc'')]\<rparr>"
  let ?n = "sample_network_error ''ERR_BAD_OPTION'' ''bad option''"
  have a: "response ?e = Some ?r \<and> status ?r \<noteq> 0 \<and>
           status ?r \<notin> {401, 403, 404, 429, 500, 502, 503}"
    by (simp add: sample_http_error_def)
  have d: "decimal (status ?r) = ''418''"
    by code_simp
  have t: "or_unknown_error (statusText ?r) = ''I am a teapot''"
    by (simp add: or_unknown_error_def)
  have n: "no_http_status ?n \<and> \<not> connection_refused ?n \<and> \<not> timed_out ?n"
    by (simp add: sample_network_error_def no_http_status_def connection_refused_def
          timed_out_def sublist_code prefix_code)
  from sanitizeErrorMessage_unknown [of ?e]
  have "response ?e = Some ?r \<and> status ?r \<noteq> 0 \<and>
         status ?r \<notin> {401, 403, 404, 429, 500, 502, 503} \<longrightarrow>
         sanitizeErrorMessage ?e =
           ''Request failed with status '' @ decimal (status ?r) @ '': '' @
           or_unknown_error (statusText ?r) \<and>
         sublist (decimal (status ?r)) (sanitizeErrorMessage ?e)"
    by blast
  with a have e: "sanitizeErrorMessage ?e =
           ''Request failed with status '' @ decimal (status ?r) @ '': '' @
           or_unknown_error (statusText ?r)"
    and s: "sublist (decimal (status ?r)) (sanitizeErrorMessage ?e)"
    by blast+
  from e have e': "sanitizeErrorMessage ?e = ''Request failed with status 418: I am a teapot''"
    unfolding d t by simp
  from s have s': "sublist ''418'' (sanitizeErrorMessage ?e)"
    by (simp only: d)
  note 1 = conjI [OF e' s']
  from n sanitizeErrorMessage_unknown [of ?n]
  have 2: "sanitizeErrorMessage ?n = ''An error occurred while processing your request.''"
    by blast
  from 1 2 show ?thesis
    by blast
qed


section \<open>Dispatching a request\<close>

lemma of_char_bound: "(of_char c :: nat) < 256"
proof -
  have "(of_char c :: nat) mod 256 < 256"
    by (rule mod_less_divisor) simp
  then show ?thesis
    by (simp only: of_char_mod_256)
qed

lemma hex_digit_ok: "n < 16 \<Longrightarrow> is_hex_digit (hex_digit n)"
  unfolding is_hex_digit_def hex_digit_def by (rule nth_mem) simp

lemma percent_encoded_byte:
  assumes "percent_encoded rest"
  shows "percent_encoded (urlencode_byte c @ rest)"
proof -
  have lt1: "(of_char c :: nat) div 16 < 16"
    using of_char_bound [of c] by arith
  have lt2: "(of_char c :: nat) mod 16 < 16"
    by simp
  have np: "urlencoded_unreserved c \<Longrightarrow> c \<noteq> CHR ''%''"
    by (auto simp: urlencoded_unreserved_def)
  show ?thesis
    using assms hex_digit_ok [OF lt1] hex_digit_ok [OF lt2] np
    by (auto simp: urlencode_byte_def)
qed

lemma percent_encoded_urlencode: "percent_encoded (urlencode s)"
  by (induction s) (simp_all add: urlencode_def percent_encoded_byte)

lemma hex_value_table: "list_all (\<lambda>n. hex_value (hex_digit n) = n) [0..<16]"
  by code_simp

lemma hex_value_hex_digit: "n < 16 \<Longrightarrow> hex_value (hex_digit n) = n"
proof -
  assume "n < 16"
  then have "n \<in> set [0..<16]"
    by simp
  with hex_value_table show ?thesis
    unfolding list_all_iff by blast
qed

lemma percent_decode_byte:
  "percent_decode (urlencode_byte c @ rest) = c # percent_decode rest"
proof -
  have lt1: "(of_char c :: nat) div 16 < 16"
    using of_char_bound [of c] by arith
  have lt2: "(of_char c :: nat) mod 16 < 16"
    by simp
  have np: "urlencoded_unreserved c \<Longrightarrow> c \<noteq> CHR ''%'' \<and> c \<noteq> CHR ''+''"
    by (auto simp: urlencoded_unreserved_def)
  have rt: "char_of (16 * ((of_char c :: nat) div 16) + (of_char c :: nat) mod 16) = c"
    by simp
  show ?thesis
  proof (cases "urlencoded_unreserved c")
    case True
    with np show ?thesis
      by (simp add: urlencode_byte_def)
  next
    case False
    show ?thesis
    proof (cases "c = CHR '' ''")
      case True
      with False show ?thesis
        by (simp add: urlencode_byte_def)
    next
      case sp: False
      with False have "urlencode_byte c =
          [CHR ''%'', hex_digit ((of_char c :: nat) div 16), hex_digit ((of_char c :: nat) mod 16)]"
        by (simp add: urlencode_byte_def)
      then show ?thesis
        using rt by (simp add: hex_value_hex_digit [OF lt1] hex_value_hex_digit [OF lt2])
    qed
  qed
qed

lemma percent_decode_urlencode: "percent_decode (urlencode s) = s"
  by (induction s) (simp_all add: urlencode_def percent_decode_byte)


lemma makeApiRequest_cases:
  assumes "makeApiRequest getToken axios base endpoint meth body contentType_arg tm =
             (outcome, tm', evs)"
    and "HttpCall req \<in> set evs"
  shows "\<exists>token. getToken tm = (Inr token, tm') \<and>
     req = build_request base token endpoint meth body
             (case contentType_arg of None \<Rightarrow> ''application/json'' | Some c \<Rightarrow> c) \<and>
     (case axios req of
        Inr resp \<Rightarrow> outcome = Inr (response_data resp) \<and> evs = [TokenRequested, HttpCall req]
      | Inl error \<Rightarrow>
          outcome = Inl error \<and>
          evs = [TokenRequested, HttpCall req,
                 ConsoleError (''API request failed: '' @ meth @ '' '' @ endpoint @ '' - '' @
                               code_or_message error)])"
  using assms
  by (auto simp: makeApiRequest_def Let_def split: prod.splits sum.splits)

text \<open>
  Claim C4. Whenever \<open>makeApiRequest\<close> has made an HTTP call and the transport
  answered it with a response, the value it returns is the \<open>data\<close> of that
  response, unchanged; the tool callback prints exactly that value.
\<close>

theorem makeApiRequest_pass_through:
  assumes "makeApiRequest getToken axios base endpoint meth body contentType_arg tm =
             (outcome, tm', evs)"
    and "HttpCall req \<in> set evs"
    and "axios req = Inr resp"
  shows "outcome = Inr (response_data resp) \<and>
         tool_text stringify outcome = stringify (response_data resp)"
proof -
  from makeApiRequest_cases [OF assms(1,2)] assms(3)
  have "outcome = Inr (response_data resp)"
    by auto
  then show ?thesis
    by (simp add: tool_text_def)
qed

theorem makeApiRequest_pass_through_witness:
  "makeApiRequest sample_getToken sample_axios_ok ''https://123-ABC-456.mktorest.com''
      ''/rest/v1/lead/318581.json'' ''GET'' None None 0 =
    (Inr sample_envelope, Suc 0,
     [TokenRequested,
      HttpCall \<lparr>url = ''https://123-ABC-456.mktorest.com/rest/v1/lead/318581.json'',
                http_method = ''GET'', data = AsIs None,
                headers = [(''Authorization'', ''Bearer T1''), (''Content-Type'', ''application/json'')],
                timeout = 30000\<rparr>]) \<and>
   tool_text ToString (Inr sample_envelope) = ToString sample_envelope"
proof -
  let ?req = "\<lparr>url = ''https://123-ABC-456.mktorest.com/rest/v1/lead/318581.json'',
                http_method = ''GET'', data = AsIs None,
                headers = [(''Authorization'', ''Bearer T1''), (''Content-Type'', ''application/json'')],
                timeout = 30000\<rparr>"
  let ?resp = "\<lparr>status = 200, statusText = Some ''OK'', response_data = sample_envelope,
                response_headers = [(''content-type'', ''application/json'')]\<rparr>"
  have run: "makeApiRequest sample_getToken sample_axios_ok ''https://123-ABC-456.mktorest.com''
      ''/rest/v1/lead/318581.json'' ''GET'' None None 0 =
    (Inr sample_envelope, Suc 0, [TokenRequested, HttpCall ?req])"
    by (simp add: makeApiRequest_def sample_getToken_def sample_axios_ok_def build_request_def
          API_REQUEST_TIMEOUT_def)
  have mem: "HttpCall ?req \<in> set [TokenRequested, HttpCall ?req]"
    by simp
  have ok: "sample_axios_ok ?req = Inr ?resp"
    by (simp add: sample_axios_ok_def)
  from makeApiRequest_pass_through
         [where getToken = sample_getToken and axios = sample_axios_ok and stringify = ToString,
          OF run mem ok]
       run
  show ?thesis
    by simp
qed

text \<open>
  Claim C5. When the business call made by \<open>makeApiRequest\<close> is rejected with HTTP
  401, that call is the only HTTP call: the events are the one request for a token that
  precedes it, the call, and the log line; the token manager is left as that one
  \<open>getToken\<close> left it (no refresh), the error is rethrown, and the tool callback
  answers with the authentication-failure message.
\<close>

theorem makeApiRequest_401_no_retry:
  assumes "makeApiRequest getToken axios base endpoint meth body contentType_arg tm =
             (outcome, tm', evs)"
    and "HttpCall req \<in> set evs"
    and "axios req = Inl error"
    and "response error = Some r"
    and "status r = 401"
  shows "evs = [TokenRequested, HttpCall req,
                ConsoleError (''API request failed: '' @ meth @ '' '' @ endpoint @ '' - '' @
                              code_or_message error)] \<and>
         http_calls evs = [req] \<and>
         token_requests evs = 1 \<and>
         tm' = snd (getToken tm) \<and>
         outcome = Inl error \<and>
         tool_text stringify outcome =
           ''Error: Authentication failed. Please check your Marketo credentials.''"
proof -
  from makeApiRequest_cases [OF assms(1,2)] assms(3)
  have g: "fst (getToken tm) \<noteq> Inl error \<and> snd (getToken tm) = tm'"
    and o: "outcome = Inl error"
    and e: "evs = [TokenRequested, HttpCall req,
                ConsoleError (''API request failed: '' @ meth @ '' '' @ endpoint @ '' - '' @
                              code_or_message error)]"
    by auto
  from assms(5) have nz: "status r \<noteq> 0"
    by simp
  have s: "sanitizeErrorMessage error =
             ''Authentication failed. Please check your Marketo credentials.''"
    unfolding sanitize_status [OF assms(4) nz] using assms(5) by simp
  have h: "http_calls evs = [req]" "token_requests evs = 1"
    unfolding e by (simp_all add: http_calls_def token_requests_def)
  from o e s h g show ?thesis
    by (simp add: tool_text_def)
qed

theorem makeApiRequest_401_no_retry_witness:
  "makeApiRequest sample_getToken sample_axios_401 ''https://123-ABC-456.mktorest.com''
      ''/rest/v1/lead/318581.json'' ''GET'' None None 0 =
    (Inl (sample_error_401 (sample_request_lead ''T1'')), Suc 0,
     [TokenRequested, HttpCall (sample_request_lead ''T1''),
      ConsoleError ''API request failed: GET /rest/v1/lead/318581.json - ERR_BAD_REQUEST'']) \<and>
   http_calls
     [TokenRequested, HttpCall (sample_request_lead ''T1''),
      ConsoleError ''API request failed: GET /rest/v1/lead/318581.json - ERR_BAD_REQUEST''] =
     [sample_request_lead ''T1''] \<and>
   Suc 0 = snd (sample_getToken 0) \<and>
   tool_text ToString (Inl (sample_error_401 (sample_request_lead ''T1''))) =
     ''Error: Authentication failed. Please check your Marketo credentials.''"
proof -
  let ?req = "sample_request_lead ''T1''"
  let ?r = "\<lparr>status = 401, statusText = Some ''Unauthorized'',
             response_data = JObject [(''errors'', JString ''Access token invalid'')],
             response_headers = []\<rparr>"
  let ?error = "sample_error_401 ?req"
  let ?evs = "[TokenRequested, HttpCall ?req,
      ConsoleError ''API request failed: GET /rest/v1/lead/318581.json - ERR_BAD_REQUEST'']"
  have rej: "sample_axios_401 ?req = Inl ?error"
    by (simp add: sample_axios_401_def)
  have b: "build_request ''https://123-ABC-456.mktorest.com'' ''T1''
             ''/rest/v1/lead/318581.json'' ''GET'' None ''application/json'' = ?req"
    by (simp add: build_request_def API_REQUEST_TIMEOUT_def sample_request_lead_def)
  have c: "code_or_message ?error = ''ERR_BAD_REQUEST''"
    by (simp add: code_or_message_def sample_error_401_def)
  have run: "makeApiRequest sample_getToken sample_axios_401 ''https://123-ABC-456.mktorest.com''
      ''/rest/v1/lead/318581.json'' ''GET'' None None 0 = (Inl ?error, Suc 0, ?evs)"
    by (simp add: makeApiRequest_def sample_getToken_def b rej c Let_def)
  have mem: "HttpCall ?req \<in> set ?evs"
    by simp
  have resp: "response ?error = Some ?r"
    by (simp add: sample_error_401_def)
  have st: "status ?r = 401"
    by simp
  note t = makeApiRequest_401_no_retry
         [where getToken = sample_getToken and axios = sample_axios_401 and stringify = ToString,
          OF run mem rej resp st]
  from t have h: "http_calls ?evs = [?req]"
    by blast
  from t have s: "Suc 0 = snd (sample_getToken 0)"
    by blast
  from t have m: "tool_text ToString (Inl ?error) =
     ''Error: Authentication failed. Please check your Marketo credentials.''"
    by blast
  from run h s m show ?thesis
    by blast
qed

text \<open>
  Claim C7. \<open>makeApiRequest\<close> makes one HTTP call. When \<open>contentType\<close> is
  \<open>application/x-www-form-urlencoded\<close>, its body is the string of the pairs
  \<open>name=value\<close> joined by \<open>&\<close>, every name and value written by the
  form-urlencoded serializer; for any other content type (JSON in particular) the body is
  the caller's object as it is; when \<open>contentType\<close> is omitted the header is
  \<open>application/json\<close>. The serializer's output is in percent-encoded form and
  decodes back to the value.
\<close>

theorem makeApiRequest_body_encoding:
  assumes "getToken tm = (Inr token, tm')"
  shows "\<exists>req.
     http_calls (snd (snd (makeApiRequest getToken axios base endpoint meth body contentType_arg tm)))
       = [req] \<and>
     (contentType_arg = Some ''application/x-www-form-urlencoded'' \<longrightarrow>
        data req =
          FormString
            (join ''&''
               (map (\<lambda>(name, v). urlencode name @ ''='' @ urlencode (ToString v))
                    (case body of None \<Rightarrow> [] | Some props \<Rightarrow> props)))) \<and>
     (contentType_arg \<noteq> Some ''application/x-www-form-urlencoded'' \<longrightarrow> data req = AsIs body) \<and>
     (contentType_arg = None \<longrightarrow>
        headers req =
          [(''Authorization'', ''Bearer '' @ token), (''Content-Type'', ''application/json'')]) \<and>
     (\<forall>s. percent_encoded (urlencode s) \<and> percent_decode (urlencode s) = s)"
proof -
  let ?ct = "case contentType_arg of None \<Rightarrow> ''application/json'' | Some c \<Rightarrow> c"
  let ?req = "build_request base token endpoint meth body ?ct"
  have calls: "http_calls (snd (snd (makeApiRequest getToken axios base endpoint meth body
                 contentType_arg tm))) = [?req]"
    using assms
    by (cases "axios ?req") (simp_all add: makeApiRequest_def Let_def http_calls_def)
  have form: "contentType_arg = Some ''application/x-www-form-urlencoded'' \<longrightarrow>
        data ?req =
          FormString
            (join ''&''
               (map (\<lambda>(name, v). urlencode name @ ''='' @ urlencode (ToString v))
                    (case body of None \<Rightarrow> [] | Some props \<Rightarrow> props)))"
    by (cases body) (simp_all add: build_request_def URLSearchParams_toString_def)
  have json: "contentType_arg \<noteq> Some ''application/x-www-form-urlencoded'' \<longrightarrow>
        data ?req = AsIs body"
    by (cases contentType_arg) (simp_all add: build_request_def)
  have dflt: "contentType_arg = None \<longrightarrow>
        headers ?req =
          [(''Authorization'', ''Bearer '' @ token), (''Content-Type'', ''application/json'')]"
    by (simp add: build_request_def)
  have enc: "\<forall>s. percent_encoded (urlencode s) \<and> percent_decode (urlencode s) = s"
    by (simp add: percent_encoded_urlencode percent_decode_urlencode)
  from calls form json dflt enc show ?thesis
    by blast
qed

theorem makeApiRequest_body_encoding_witness:
  "sample_getToken 0 = (Inr ''T1'', Suc 0) \<and>
   (\<exists>req. http_calls (snd (snd (makeApiRequest sample_getToken sample_axios_ok
       ''https://123-ABC-456.mktorest.com'' ''/asset/v1/form/7/clone.json'' ''POST''
       (Some sample_form_data) (Some ''application/x-www-form-urlencoded'') 0))) = [req] \<and>
      data req = FormString
         ''name=My+Form+%26+co&description=undefined&folder=%7B%22id%22%3A12%2C%22type%22%3A%22Folder%22%7D'') \<and>
   (\<exists>req. http_calls (snd (snd (makeApiRequest sample_getToken sample_axios_ok
       ''https://123-ABC-456.mktorest.com'' ''/rest/v1/leads.json'' ''POST''
       (Some sample_form_data) None 0))) = [req] \<and>
      data req = AsIs (Some sample_form_data) \<and>
      headers req = [(''Authorization'', ''Bearer T1''), (''Content-Type'', ''application/json'')])"
proof -
  have g: "sample_getToken 0 = (Inr ''T1'', Suc 0)"
    by (simp add: sample_getToken_def)
  have enc: "join ''&'' (map (\<lambda>(name, v). urlencode name @ ''='' @ urlencode (ToString v))
                          (case Some sample_form_data of None \<Rightarrow> [] | Some props \<Rightarrow> props)) =
     ''name=My+Form+%26+co&description=undefined&folder=%7B%22id%22%3A12%2C%22type%22%3A%22Folder%22%7D''"
    by code_simp
  from makeApiRequest_body_encoding
         [where getToken = sample_getToken and axios = sample_axios_ok
            and contentType_arg = "Some ''application/x-www-form-urlencoded''"
            and body = "Some sample_form_data" and endpoint = "''/asset/v1/form/7/clone.json''"
            and base = "''https://123-ABC-456.mktorest.com''" and meth = "''POST''", OF g]
  have form: "\<exists>req. http_calls (snd (snd (makeApiRequest sample_getToken sample_axios_ok
       ''https://123-ABC-456.mktorest.com'' ''/asset/v1/form/7/clone.json'' ''POST''
       (Some sample_form_data) (Some ''application/x-www-form-urlencoded'') 0))) = [req] \<and>
      data req = FormString
         ''name=My+Form+%26+co&description=undefined&folder=%7B%22id%22%3A12%2C%22type%22%3A%22Folder%22%7D''"
    unfolding enc by blast
  from makeApiRequest_body_encoding
         [where getToken = sample_getToken and axios = sample_axios_ok and contentType_arg = None
            and body = "Some sample_form_data" and endpoint = "''/rest/v1/leads.json''"
            and base = "''https://123-ABC-456.mktorest.com''" and meth = "''POST''", OF g]
  have json: "\<exists>req. http_calls (snd (snd (makeApiRequest sample_getToken sample_axios_ok
       ''https://123-ABC-456.mktorest.com'' ''/rest/v1/leads.json'' ''POST''
       (Some sample_form_data) None 0))) = [req] \<and>
      data req = AsIs (Some sample_form_data) \<and>
      headers req = [(''Authorization'', ''Bearer T1''), (''Content-Type'', ''application/json'')]"
    by auto
  from g form json show ?thesis
    by blast
qed


section \<open>Token lifecycle\<close>

lemma tm_run_Cons: "tm_run tm (e # evs) = tm_run (tm_step tm e) evs"
  by (simp add: tm_run_def)

lemma tm_run_append: "tm_run tm (xs @ ys) = tm_run (tm_run tm xs) ys"
  by (simp add: tm_run_def)

lemma tm_run_join:
  assumes "pending tm = Some ws"
    and "\<forall>(c, now) \<in> set calls. \<not> usable (cached tm) now"
  shows "tm_run tm (map (\<lambda>(c, now). GetToken c now) calls) =
           tm\<lparr>pending := Some (ws @ map fst calls)\<rparr>"
  using assms
proof (induction calls arbitrary: tm ws)
  case Nil
  then show ?case by (simp add: tm_run_def)
next
  case (Cons x calls)
  obtain c now where x: "x = (c, now)"
    by (cases x)
  let ?tm = "tm\<lparr>pending := Some (ws @ [c])\<rparr>"
  from Cons.prems x have s: "tm_step tm (GetToken c now) = ?tm"
    by simp
  have p: "pending ?tm = Some (ws @ [c])"
    by simp
  from Cons.prems have u: "\<forall>(c, now) \<in> set calls. \<not> usable (cached ?tm) now"
    by simp
  from Cons.IH [OF p u] s x show ?case
    by (simp add: tm_run_Cons)
qed

lemma tm_run_first:
  assumes "pending tm = None"
    and "calls \<noteq> []"
    and "\<forall>(c, now) \<in> set calls. \<not> usable (cached tm) now"
  shows "tm_run tm (map (\<lambda>(c, now). GetToken c now) calls) =
           tm\<lparr>pending := Some (map fst calls), token_calls := token_calls tm + 1\<rparr>"
proof -
  from assms(2) obtain c now rest where calls: "calls = (c, now) # rest"
    by (cases calls) auto
  let ?tm = "tm\<lparr>pending := Some [c], token_calls := token_calls tm + 1\<rparr>"
  from assms calls have s: "tm_step tm (GetToken c now) = ?tm"
    by simp
  have p: "pending ?tm = Some [c]"
    by simp
  from assms(3) calls have u: "\<forall>(c, now) \<in> set rest. \<not> usable (cached ?tm) now"
    by simp
  from tm_run_join [OF p u] s calls show ?thesis
    by (simp add: tm_run_Cons)
qed

text \<open>
  Claim C2. Let any number of callers (two or more; one is enough) call \<open>getToken\<close>
  while no refresh is in flight and the cached token, if any, is not usable at the time of
  any of the calls, all of them before the token request settles. Then exactly one request
  has been issued to the token endpoint, before and after it settles; when it settles,
  every one of the calls resolves to the same outcome, the token value of the response or
  its failure, and the slot is cleared.
\<close>

theorem getToken_single_flight:
  assumes "pending tm = None"
    and "calls \<noteq> []"
    and "\<forall>(c, now) \<in> set calls. \<not> usable (cached tm) now"
  shows "token_calls (tm_run tm (map (\<lambda>(c, now). GetToken c now) calls)) = token_calls tm + 1 \<and>
         token_calls (tm_run tm (map (\<lambda>(c, now). GetToken c now) calls @ [RefreshSettled t result])) =
           token_calls tm + 1 \<and>
         delivered (tm_run tm (map (\<lambda>(c, now). GetToken c now) calls @ [RefreshSettled t result])) =
           delivered tm @ map (\<lambda>(c, now). (c, outcome_of result)) calls \<and>
         pending (tm_run tm (map (\<lambda>(c, now). GetToken c now) calls @ [RefreshSettled t result])) = None"
proof -
  let ?mid = "tm\<lparr>pending := Some (map fst calls), token_calls := token_calls tm + 1\<rparr>"
  have mid: "tm_run tm (map (\<lambda>(c, now). GetToken c now) calls) = ?mid"
    by (rule tm_run_first [OF assms])
  have m: "map (\<lambda>c. (c, outcome_of result)) (map fst calls) =
           map (\<lambda>(c, now). (c, outcome_of result)) calls"
    by (induction calls) auto
  have fin: "tm_run tm (map (\<lambda>(c, now). GetToken c now) calls @ [RefreshSettled t result]) =
             tm_step ?mid (RefreshSettled t result)"
    unfolding tm_run_append mid by (simp add: tm_run_def)
  have d: "delivered (tm_step ?mid (RefreshSettled t result)) =
             delivered tm @ map (\<lambda>c. (c, outcome_of result)) (map fst calls)"
    by (cases result) (auto simp: outcome_of_def)
  have c: "token_calls (tm_step ?mid (RefreshSettled t result)) = token_calls tm + 1"
    by (cases result) auto
  have p: "pending (tm_step ?mid (RefreshSettled t result)) = None"
    by (cases result) auto
  from mid fin d c p m show ?thesis
    by simp
qed

theorem getToken_single_flight_witness:
  "token_calls (tm_run new_token_manager
      [GetToken 1 0, GetToken 2 1, GetToken 3 1, RefreshSettled 2 (Inr (''T1'', 3600))]) = 1 \<and>
   delivered (tm_run new_token_manager
      [GetToken 1 0, GetToken 2 1, GetToken 3 1, RefreshSettled 2 (Inr (''T1'', 3600))]) =
     [(1, Resolved ''T1''), (2, Resolved ''T1''), (3, Resolved ''T1'')] \<and>
   delivered (tm_run new_token_manager
      [GetToken 1 0, GetToken 2 1, GetToken 3 1, RefreshSettled 2 (Inl AuthFailed)]) =
     [(1, Rejected AuthFailed), (2, Rejected AuthFailed), (3, Rejected AuthFailed)]"
proof -
  have p: "pending new_token_manager = None"
    by (simp add: new_token_manager_def)
  have n: "[(1, 0), (2, 1), (3, 1)] \<noteq> ([] :: (nat \<times> int) list)"
    by simp
  have u: "\<forall>(c, now) \<in> set [(1 :: nat, 0 :: int), (2, 1), (3, 1)].
             \<not> usable (cached new_token_manager) now"
    by (simp add: new_token_manager_def usable_def)
  from getToken_single_flight [OF p n u, of 2 "Inr (''T1'', 3600)"]
       getToken_single_flight [OF p n u, of 2 "Inl AuthFailed"]
  show ?thesis
    by (simp add: new_token_manager_def outcome_of_def)
qed

text \<open>
  Claim C8. A call of \<open>getToken\<close> made while the cached token expires more than the
  safety margin in the future resolves to the cached token value at once: no request is
  issued and nothing else changes. A call made while the cached token's expiry is within
  the margin or in the past issues exactly one request to the token endpoint when no
  refresh is in flight, and awaits the one in flight otherwise, issuing none of its own.
\<close>

theorem getToken_expiry:
  assumes "cached tm = Some a"
  shows "(now < expiresAt a - safety_margin \<longrightarrow>
            tm_step tm (GetToken c now) =
              tm\<lparr>delivered := delivered tm @ [(c, Resolved (tokenValue a))]\<rparr> \<and>
            token_calls (tm_step tm (GetToken c now)) = token_calls tm) \<and>
         (expiresAt a - safety_margin \<le> now \<and> pending tm = None \<longrightarrow>
            tm_step tm (GetToken c now) =
              tm\<lparr>pending := Some [c], token_calls := token_calls tm + 1\<rparr> \<and>
            token_calls (tm_step tm (GetToken c now)) = token_calls tm + 1) \<and>
         (\<forall>waiters. expiresAt a - safety_margin \<le> now \<and> pending tm = Some waiters \<longrightarrow>
            tm_step tm (GetToken c now) = tm\<lparr>pending := Some (waiters @ [c])\<rparr> \<and>
            token_calls (tm_step tm (GetToken c now)) = token_calls tm)"
  using assms by (simp add: usable_def)

theorem getToken_expiry_witness:
  "tm_step \<lparr>cached = Some \<lparr>tokenValue = ''T1'', expiresAt = 3600\<rparr>, pending = None,
             token_calls = 1, delivered = []\<rparr> (GetToken 7 10) =
     \<lparr>cached = Some \<lparr>tokenValue = ''T1'', expiresAt = 3600\<rparr>, pending = None,
      token_calls = 1, delivered = [(7, Resolved ''T1'')]\<rparr> \<and>
   tm_step \<lparr>cached = Some \<lparr>tokenValue = ''T1'', expiresAt = 3600\<rparr>, pending = None,
             token_calls = 1, delivered = []\<rparr> (GetToken 7 3570) =
     \<lparr>cached = Some \<lparr>tokenValue = ''T1'', expiresAt = 3600\<rparr>, pending = Some [7],
      token_calls = 2, delivered = []\<rparr> \<and>
   tm_step \<lparr>cached = Some \<lparr>tokenValue = ''T1'', expiresAt = 3600\<rparr>, pending = Some [7],
             token_calls = 2, delivered = []\<rparr> (GetToken 8 3571) =
     \<lparr>cached = Some \<lparr>tokenValue = ''T1'', expiresAt = 3600\<rparr>, pending = Some [7, 8],
      token_calls = 2, delivered = []\<rparr>"
proof -
  let ?a = "\<lparr>tokenValue = ''T1'', expiresAt = 3600\<rparr>"
  let ?tm = "\<lparr>cached = Some ?a, pending = None, token_calls = 1, delivered = []\<rparr>"
  let ?tm' = "\<lparr>cached = Some ?a, pending = Some [7], token_calls = 2, delivered = []\<rparr>"
  have c: "cached ?tm = Some ?a" "cached ?tm' = Some ?a"
    by simp_all
  have 1: "10 < expiresAt ?a - safety_margin"
    by (simp add: safety_margin_def)
  have 2: "expiresAt ?a - safety_margin \<le> 3570 \<and> pending ?tm = None"
    by (simp add: safety_margin_def)
  have 3: "expiresAt ?a - safety_margin \<le> 3571 \<and> pending ?tm' = Some [7]"
    by (simp add: safety_margin_def)
  from 1 getToken_expiry [OF c(1), of 10 7]
  have r1: "tm_step ?tm (GetToken 7 10) = ?tm\<lparr>delivered := delivered ?tm @ [(7, Resolved (tokenValue ?a))]\<rparr>"
    by blast
  from 2 getToken_expiry [OF c(1), of 3570 7]
  have r2: "tm_step ?tm (GetToken 7 3570) = ?tm\<lparr>pending := Some [7], token_calls := token_calls ?tm + 1\<rparr>"
    by blast
  from 3 getToken_expiry [OF c(2), of 3571 8]
  have r3: "tm_step ?tm' (GetToken 8 3571) = ?tm'\<lparr>pending := Some ([7] @ [8])\<rparr>"
    by blast
  from r1 r2 r3 show ?thesis
    by simp
qed


end
